theory Spec2Isabelle
  imports Main "HOL-Library.Word" "HOL-Library.Sublist"
begin

section \<open>JavaScript strings\<close>

text \<open>
  A JavaScript string is a sequence of 16-bit code units. \<open>str\<close> writes a literal of
  the source; every literal of the source is ASCII.
\<close>

type_synonym jschar = "16 word"
type_synonym jsstring = "jschar list"

definition str :: "string \<Rightarrow> jsstring" where
  "str s = map (\<lambda>c. of_char c) s"

text \<open>
  \<open>String.prototype.trim\<close> removes leading and trailing white space and line
  terminators: TAB, LF, VT, FF, CR, SP, NBSP, the Unicode space separators, LS, PS and
  the byte order mark.
\<close>

definition isWhiteSpace :: "jschar \<Rightarrow> bool" where
  "isWhiteSpace c = (c \<in> set [0x9, 0xA, 0xB, 0xC, 0xD, 0x20, 0xA0, 0x1680,
      0x2000, 0x2001, 0x2002, 0x2003, 0x2004, 0x2005, 0x2006, 0x2007, 0x2008, 0x2009, 0x200A,
      0x2028, 0x2029, 0x202F, 0x205F, 0x3000, 0xFEFF])"

definition trim :: "jsstring \<Rightarrow> jsstring" where
  "trim s = rev (dropWhile isWhiteSpace (rev (dropWhile isWhiteSpace s)))"


section \<open>types/conversation.ts\<close>

datatype role = user | assistant

text \<open>\<open>timestamp\<close> is the optional \<open>Date\<close>; a date is its number of milliseconds.\<close>

record Message =
  role :: role
  content :: jsstring
  timestamp :: "nat option"

record ConversationState =
  messages :: "Message list"
  isLoading :: bool
  error :: "jsstring option"

text \<open>The field \<open>text\<close> of the source is \<open>reply_text\<close> here.\<close>

record ChatResponse =
  reply_text :: jsstring
  audio_url :: "jsstring option"


section \<open>services/api.ts\<close>

text \<open>
  A thrown value is an \<open>Error\<close> object with its message, or some other value.
  A rejected promise is \<open>Inl\<close> of the thrown value, a fulfilled one \<open>Inr\<close>.
\<close>

datatype thrown = Error jsstring | NonError

text \<open>
  The request body is \<open>JSON.stringify({ text })\<close> or a \<open>FormData\<close>, whose entries are
  a field name, a blob and a file name. The key \<open>method\<close> of the options is
  \<open>http_method\<close> here.
\<close>

datatype 'b BodyInit = JSON_stringify_text jsstring | FormData "(jsstring \<times> 'b \<times> jsstring) list"

record 'b RequestInit =
  http_method :: "jsstring option"
  headers :: "(jsstring \<times> jsstring) list option"
  body :: "'b BodyInit option"

text \<open>
  A response has its status, its status text, and what reading its body gives:
  \<open>response.text()\<close>, \<open>response.json()\<close> and \<open>response.blob()\<close> return promises, and
  \<open>json()\<close> rejects when the body is not JSON. \<open>response.ok\<close> is true for a status from
  200 to 299.
\<close>

record ('a, 'b) Response =
  status :: nat
  statusText :: jsstring
  text_promise :: "thrown + jsstring"
  json_promise :: "thrown + 'a"
  blob_promise :: "thrown + 'b"

definition ok :: "('a, 'b) Response \<Rightarrow> bool" where
  "ok response = (200 \<le> status response \<and> status response \<le> 299)"

text \<open>
  \<open>fetch\<close> is the environment: it maps a URL and its options to a rejected promise or
  a response. Each gateway function returns the list of \<open>fetch\<close> calls it made together
  with its own promise.
\<close>

type_synonym ('a, 'b) fetch = "jsstring \<Rightarrow> 'b RequestInit \<Rightarrow> thrown + ('a, 'b) Response"

type_synonym ('r, 'b) gateway_call = "(jsstring \<times> 'b RequestInit) list \<times> (thrown + 'r)"

text \<open>
  \<open>const API_BASE_URL = process.env.REACT_APP_API_URL || 'http://localhost:8000'\<close>:
  an unset variable and an empty one are falsy.
\<close>

definition API_BASE_URL :: "jsstring option \<Rightarrow> jsstring" where
  "API_BASE_URL REACT_APP_API_URL =
     (case REACT_APP_API_URL of
        None \<Rightarrow> str ''http://localhost:8000''
      | Some url \<Rightarrow> if url \<noteq> [] then url else str ''http://localhost:8000'')"

text \<open>
  In \<open>{ headers: {'Content-Type': 'application/json', ...options.headers}, ...options }\<close>
  the spread of \<open>options\<close> comes last, so a \<open>headers\<close> key of \<open>options\<close> replaces the
  merged headers.
\<close>

definition makeRequest_init :: "'b RequestInit \<Rightarrow> 'b RequestInit" where
  "makeRequest_init options =
     \<lparr>http_method = http_method options,
      headers = (case headers options of
                   None \<Rightarrow> Some [(str ''Content-Type'', str ''application/json'')]
                 | Some h \<Rightarrow> Some h),
      body = body options\<rparr>"

subsection \<open>The service of \<open>frontend/src/services/api.ts\<close>\<close>

definition makeRequest ::
  "jsstring \<Rightarrow> ('a, 'b) fetch \<Rightarrow> jsstring \<Rightarrow> 'b RequestInit \<Rightarrow> ('a, 'b) gateway_call" where
  "makeRequest base fetch endpoint options =
     (let url = base @ endpoint;
          init = makeRequest_init options
      in case fetch url init of
           Inl e \<Rightarrow> ([(url, init)], Inl e)
         | Inr response \<Rightarrow>
             if \<not> ok response
             then ([(url, init)], Inl (Error (str ''API request failed: '' @ statusText response)))
             else ([(url, init)], json_promise response))"

definition sendTextMessage ::
  "jsstring \<Rightarrow> (ChatResponse, 'b) fetch \<Rightarrow> jsstring \<Rightarrow> (ChatResponse, 'b) gateway_call" where
  "sendTextMessage base fetch text =
     makeRequest base fetch (str ''/api/chat'')
       \<lparr>http_method = Some (str ''POST''), headers = None, body = Some (JSON_stringify_text text)\<rparr>"

definition sendAudioMessage ::
  "jsstring \<Rightarrow> (ChatResponse, 'b) fetch \<Rightarrow> 'b \<Rightarrow> (ChatResponse, 'b) gateway_call" where
  "sendAudioMessage base fetch audioBlob =
     (let formData = FormData [(str ''audio'', audioBlob, str ''recording.webm'')];
          url = base @ str ''/api/speech-to-text'';
          init = \<lparr>http_method = Some (str ''POST''), headers = None, body = Some formData\<rparr>
      in case fetch url init of
           Inl e \<Rightarrow> ([(url, init)], Inl e)
         | Inr response \<Rightarrow>
             if \<not> ok response
             then ([(url, init)], Inl (Error (str ''Audio processing failed: '' @ statusText response)))
             else ([(url, init)], json_promise response))"

text \<open>\<open>getConversationHistory\<close> passes no options: \<open>options\<close> is the default \<open>{}\<close>.\<close>

definition getConversationHistory ::
  "jsstring \<Rightarrow> ('a, 'b) fetch \<Rightarrow> ('a, 'b) gateway_call" where
  "getConversationHistory base fetch =
     makeRequest base fetch (str ''/api/conversation-history'')
       \<lparr>http_method = None, headers = None, body = None\<rparr>"

definition textToSpeech ::
  "jsstring \<Rightarrow> ('a, 'b) fetch \<Rightarrow> jsstring \<Rightarrow> ('b, 'b) gateway_call" where
  "textToSpeech base fetch text =
     (let url = base @ str ''/api/text-to-speech'';
          init = \<lparr>http_method = Some (str ''POST''),
                  headers = Some [(str ''Content-Type'', str ''application/json'')],
                  body = Some (JSON_stringify_text text)\<rparr>
      in case fetch url init of
           Inl e \<Rightarrow> ([(url, init)], Inl e)
         | Inr response \<Rightarrow>
             if \<not> ok response
             then ([(url, init)], Inl (Error (str ''Text-to-speech failed: '' @ statusText response)))
             else ([(url, init)], blob_promise response))"

subsection \<open>The service of \<open>unnamed/part_001\<close>\<close>

text \<open>
  The second \<open>ApiService\<close> of the repository reads the body of a failed response with
  \<open>await response.text()\<close> before it throws; that promise can reject as well.
\<close>

definition makeRequest_part_001 ::
  "jsstring \<Rightarrow> ('a, 'b) fetch \<Rightarrow> jsstring \<Rightarrow> 'b RequestInit \<Rightarrow> ('a, 'b) gateway_call" where
  "makeRequest_part_001 base fetch endpoint options =
     (let url = base @ endpoint;
          init = makeRequest_init options
      in case fetch url init of
           Inl e \<Rightarrow> ([(url, init)], Inl e)
         | Inr response \<Rightarrow>
             if \<not> ok response
             then (case text_promise response of
                     Inl e \<Rightarrow> ([(url, init)], Inl e)
                   | Inr errorText \<Rightarrow>
                       ([(url, init)],
                        Inl (Error (str ''API request failed: '' @ statusText response
                                      @ str '' - '' @ errorText))))
             else ([(url, init)], json_promise response))"

definition sendTextMessage_part_001 ::
  "jsstring \<Rightarrow> (ChatResponse, 'b) fetch \<Rightarrow> jsstring \<Rightarrow> (ChatResponse, 'b) gateway_call" where
  "sendTextMessage_part_001 base fetch text =
     makeRequest_part_001 base fetch (str ''/api/chat'')
       \<lparr>http_method = Some (str ''POST''), headers = None, body = Some (JSON_stringify_text text)\<rparr>"

definition sendAudioMessage_part_001 ::
  "jsstring \<Rightarrow> (ChatResponse, 'b) fetch \<Rightarrow> 'b \<Rightarrow> (ChatResponse, 'b) gateway_call" where
  "sendAudioMessage_part_001 base fetch audioBlob =
     (let formData = FormData [(str ''audio'', audioBlob, str ''recording.webm'')];
          url = base @ str ''/api/audio-chat'';
          init = \<lparr>http_method = Some (str ''POST''), headers = None, body = Some formData\<rparr>
      in case fetch url init of
           Inl e \<Rightarrow> ([(url, init)], Inl e)
         | Inr response \<Rightarrow>
             if \<not> ok response
             then (case text_promise response of
                     Inl e \<Rightarrow> ([(url, init)], Inl e)
                   | Inr errorText \<Rightarrow>
                       ([(url, init)],
                        Inl (Error (str ''Audio processing failed: '' @ statusText response
                                      @ str '' - '' @ errorText))))
             else ([(url, init)], json_promise response))"


text \<open>
  The replies \<open>{ text: string }\<close> of \<open>speechToText\<close> and \<open>{ message: string }\<close> of
  \<open>clearConversationHistory\<close>.
\<close>

record SpeechToTextResponse =
  transcript_text :: jsstring

record ClearHistoryResponse =
  message :: jsstring

definition speechToText ::
  "jsstring \<Rightarrow> (SpeechToTextResponse, 'b) fetch \<Rightarrow> 'b \<Rightarrow> (SpeechToTextResponse, 'b) gateway_call" where
  "speechToText base fetch audioBlob =
     (let formData = FormData [(str ''audio'', audioBlob, str ''recording.webm'')];
          url = base @ str ''/api/speech-to-text'';
          init = \<lparr>http_method = Some (str ''POST''), headers = None, body = Some formData\<rparr>
      in case fetch url init of
           Inl e \<Rightarrow> ([(url, init)], Inl e)
         | Inr response \<Rightarrow>
             if \<not> ok response
             then (case text_promise response of
                     Inl e \<Rightarrow> ([(url, init)], Inl e)
                   | Inr errorText \<Rightarrow>
                       ([(url, init)],
                        Inl (Error (str ''Speech-to-text failed: '' @ statusText response
                                      @ str '' - '' @ errorText))))
             else ([(url, init)], json_promise response))"

definition textToSpeech_part_001 ::
  "jsstring \<Rightarrow> ('a, 'b) fetch \<Rightarrow> jsstring \<Rightarrow> ('b, 'b) gateway_call" where
  "textToSpeech_part_001 base fetch text =
     (let url = base @ str ''/api/text-to-speech'';
          init = \<lparr>http_method = Some (str ''POST''),
                  headers = Some [(str ''Content-Type'', str ''application/json'')],
                  body = Some (JSON_stringify_text text)\<rparr>
      in case fetch url init of
           Inl e \<Rightarrow> ([(url, init)], Inl e)
         | Inr response \<Rightarrow>
             if \<not> ok response
             then (case text_promise response of
                     Inl e \<Rightarrow> ([(url, init)], Inl e)
                   | Inr errorText \<Rightarrow>
                       ([(url, init)],
                        Inl (Error (str ''Text-to-speech failed: '' @ statusText response
                                      @ str '' - '' @ errorText))))
             else ([(url, init)], blob_promise response))"

definition getConversationHistory_part_001 ::
  "jsstring \<Rightarrow> ('a, 'b) fetch \<Rightarrow> ('a, 'b) gateway_call" where
  "getConversationHistory_part_001 base fetch =
     makeRequest_part_001 base fetch (str ''/api/conversation-history'')
       \<lparr>http_method = None, headers = None, body = None\<rparr>"

definition clearConversationHistory ::
  "jsstring \<Rightarrow> (ClearHistoryResponse, 'b) fetch \<Rightarrow> (ClearHistoryResponse, 'b) gateway_call" where
  "clearConversationHistory base fetch =
     makeRequest_part_001 base fetch (str ''/api/conversation-history'')
       \<lparr>http_method = Some (str ''DELETE''), headers = None, body = None\<rparr>"

definition getHealthStatus :: "jsstring \<Rightarrow> ('a, 'b) fetch \<Rightarrow> ('a, 'b) gateway_call" where
  "getHealthStatus base fetch =
     makeRequest_part_001 base fetch (str ''/api/health'')
       \<lparr>http_method = None, headers = None, body = None\<rparr>"

definition getApiStatus :: "jsstring \<Rightarrow> ('a, 'b) fetch \<Rightarrow> ('a, 'b) gateway_call" where
  "getApiStatus base fetch =
     makeRequest_part_001 base fetch (str ''/api/status'')
       \<lparr>http_method = None, headers = None, body = None\<rparr>"

subsection \<open>What a gateway call makes of the outcome of its one \<open>fetch\<close>\<close>

text \<open>
  The outcome every gateway call is to have, in the words of the specification as far
  as the code follows them: a rejected \<open>fetch\<close> is passed on; a response with a status
  outside 200 to 299 is surfaced as an \<open>Error\<close> whose message is the prefix of the call
  and the status text; any other response gives what reading its body gives.
\<close>

definition gateway_outcome ::
  "thrown + ('a, 'b) Response \<Rightarrow> jsstring \<Rightarrow> (('a, 'b) Response \<Rightarrow> thrown + 'r) \<Rightarrow> thrown + 'r" where
  "gateway_outcome fetched msg read_body =
     (case fetched of
        Inl e \<Rightarrow> Inl e
      | Inr response \<Rightarrow>
          if ok response then read_body response
          else Inl (Error (msg @ statusText response)))"

text \<open>
  The same for the service of \<open>unnamed/part_001\<close>, where the message carries the body
  text as well, and a body that cannot be read is surfaced instead.
\<close>

definition gateway_outcome_part_001 ::
  "thrown + ('a, 'b) Response \<Rightarrow> jsstring \<Rightarrow> (('a, 'b) Response \<Rightarrow> thrown + 'r) \<Rightarrow> thrown + 'r" where
  "gateway_outcome_part_001 fetched msg read_body =
     (case fetched of
        Inl e \<Rightarrow> Inl e
      | Inr response \<Rightarrow>
          if ok response then read_body response
          else (case text_promise response of
                  Inl e \<Rightarrow> Inl e
                | Inr errorText \<Rightarrow>
                    Inl (Error (msg @ statusText response @ str '' - '' @ errorText))))"


section \<open>components/EnhancedConversation.tsx\<close>

text \<open>
  The hidden \<open>audio\<close> element behind \<open>audioPlayerRef\<close>. \<open>play_calls\<close> is the log of
  its \<open>play()\<close> calls, each with the \<open>src\<close> the element had at the call.
\<close>

record HTMLAudioElement =
  src :: jsstring
  play_calls :: "jsstring list"

text \<open>
  An invocation of a handler that is suspended at its \<open>await\<close>, with the argument of
  the gateway call it waits for.
\<close>

datatype 'b suspended = await_sendTextMessage jsstring | await_sendAudioMessage 'b

text \<open>
  The state of the mounted component: the \<open>conversation\<close> and \<open>isConversationActive\<close>
  state variables, \<open>audioPlayerRef.current\<close> (null when the element is not mounted),
  the staged recording \<open>audioBlob\<close> of the recorder, and the handler invocations that
  wait for the gateway, oldest first.
\<close>

record 'b app_state =
  conversation :: ConversationState
  isConversationActive :: bool
  audioPlayerRef :: "HTMLAudioElement option"
  audioBlob :: "'b option"
  awaiting :: "'b suspended list"

definition initial :: "'b app_state" where
  "initial =
     \<lparr>conversation = \<lparr>messages = [], isLoading = False, error = None\<rparr>,
      isConversationActive = False,
      audioPlayerRef = Some \<lparr>src = [], play_calls = []\<rparr>,
      audioBlob = None,
      awaiting = []\<rparr>"

definition handleStartConversation :: "'b app_state \<Rightarrow> 'b app_state" where
  "handleStartConversation c = c\<lparr>isConversationActive := True\<rparr>"

definition handleEndConversation :: "'b app_state \<Rightarrow> 'b app_state" where
  "handleEndConversation c =
     c\<lparr>isConversationActive := False,
       conversation := (conversation c)\<lparr>messages := []\<rparr>\<rparr>"

text \<open>
  \<open>if (response.audio_url && audioPlayerRef.current) { ...src = response.audio_url; ...play(); }\<close>,
  the same in both handlers. An absent \<open>audio_url\<close> and an empty one are falsy, and so
  is a null \<open>audioPlayerRef.current\<close>.
\<close>

definition play_audio_response :: "ChatResponse \<Rightarrow> 'b app_state \<Rightarrow> 'b app_state" where
  "play_audio_response response c =
     (case audio_url response of
        None \<Rightarrow> c
      | Some url \<Rightarrow>
          if url = [] then c
          else (case audioPlayerRef c of
                  None \<Rightarrow> c
                | Some player \<Rightarrow>
                    c\<lparr>audioPlayerRef :=
                        Some (player\<lparr>src := url, play_calls := play_calls player @ [url]\<rparr>)\<rparr>))"

text \<open>\<open>error instanceof Error ? error.message : 'An error occurred'\<close>\<close>

definition error_message :: "thrown \<Rightarrow> jsstring" where
  "error_message e = (case e of Error m \<Rightarrow> m | NonError \<Rightarrow> str ''An error occurred'')"

text \<open>
  \<open>handleSendMessage\<close> up to its \<open>await\<close>; \<open>now\<close> is what \<open>new Date()\<close> reads.
\<close>

definition handleSendMessage :: "nat \<Rightarrow> jsstring \<Rightarrow> 'b app_state \<Rightarrow> 'b app_state" where
  "handleSendMessage now content' c =
     (if trim content' = [] then c
      else
        let userMessage = \<lparr>role = user, content = content', timestamp = Some now\<rparr>
        in c\<lparr>conversation :=
               (conversation c)\<lparr>messages := messages (conversation c) @ [userMessage],
                                isLoading := True,
                                error := None\<rparr>,
             awaiting := awaiting c @ [await_sendTextMessage content']\<rparr>)"

text \<open>\<open>handleSendMessage\<close> from its \<open>await\<close> on, once the gateway's promise has settled.\<close>

definition handleSendMessage_resume ::
  "nat \<Rightarrow> thrown + ChatResponse \<Rightarrow> 'b app_state \<Rightarrow> 'b app_state" where
  "handleSendMessage_resume now outcome c =
     (case outcome of
        Inr response \<Rightarrow>
          let assistantMessage =
                \<lparr>role = assistant, content = reply_text response, timestamp = Some now\<rparr>
          in play_audio_response response
               (c\<lparr>conversation :=
                    (conversation c)\<lparr>messages := messages (conversation c) @ [assistantMessage],
                                     isLoading := False\<rparr>\<rparr>)
      | Inl e \<Rightarrow>
          c\<lparr>conversation :=
              (conversation c)\<lparr>isLoading := False, error := Some (error_message e)\<rparr>\<rparr>)"

text \<open>\<open>handleProcessRecording\<close> up to its \<open>await\<close>.\<close>

definition handleProcessRecording :: "'b \<Rightarrow> 'b app_state \<Rightarrow> 'b app_state" where
  "handleProcessRecording blob c =
     c\<lparr>conversation := (conversation c)\<lparr>isLoading := True, error := None\<rparr>,
       awaiting := awaiting c @ [await_sendAudioMessage blob]\<rparr>"

text \<open>
  \<open>handleProcessRecording\<close> from its \<open>await\<close> on; \<open>now\<close> and \<open>now'\<close> are the two
  readings of \<open>new Date()\<close>.
\<close>

definition handleProcessRecording_resume ::
  "nat \<Rightarrow> nat \<Rightarrow> thrown + ChatResponse \<Rightarrow> 'b app_state \<Rightarrow> 'b app_state" where
  "handleProcessRecording_resume now now' outcome c =
     (case outcome of
        Inr response \<Rightarrow>
          let userMessage =
                \<lparr>role = user, content = str ''[Voice Message]'', timestamp = Some now\<rparr>;
              assistantMessage =
                \<lparr>role = assistant, content = reply_text response, timestamp = Some now'\<rparr>
          in play_audio_response response
               (c\<lparr>conversation :=
                    (conversation c)\<lparr>messages :=
                                       messages (conversation c) @ [userMessage, assistantMessage],
                                     isLoading := False\<rparr>\<rparr>)
      | Inl e \<Rightarrow>
          c\<lparr>conversation :=
              (conversation c)\<lparr>isLoading := False, error := Some (error_message e)\<rparr>\<rparr>)"


section \<open>components/AnimatedAudioRecorder.tsx\<close>

text \<open>
  Modelled from the spec: \<open>clearRecording\<close> of the hook \<open>useAudioRecorder\<close>, whose
  file \<open>hooks/useAudioRecorder.ts\<close> is not among the sources; it drops the staged clip.
\<close>

definition clearRecording :: "'b app_state \<Rightarrow> 'b app_state" where
  "clearRecording c = c\<lparr>audioBlob := None\<rparr>"

text \<open>
  The recorder's own \<open>handleProcessRecording\<close>, whose \<open>onProcessRecording\<close> is the
  handler of the conversation component.
\<close>

definition AnimatedAudioRecorder_handleProcessRecording :: "'b app_state \<Rightarrow> 'b app_state" where
  "AnimatedAudioRecorder_handleProcessRecording c =
     (case audioBlob c of
        None \<Rightarrow> c
      | Some blob \<Rightarrow> clearRecording (handleProcessRecording blob c))"

text \<open>
  The send button carries \<open>disabled={isLoading}\<close>: a click on a disabled button calls
  no handler.
\<close>

definition send_button_click :: "'b app_state \<Rightarrow> 'b app_state" where
  "send_button_click c =
     (if isLoading (conversation c) then c else AnimatedAudioRecorder_handleProcessRecording c)"


section \<open>The event loop\<close>

text \<open>
  Handlers run to their \<open>await\<close> without interruption; between two such runs anything
  may happen. An event is a call of a handler, a click on the send button, the end of a
  recording that stages a clip, or the settling of the promise of the \<open>i\<close>-th waiting
  invocation, with the dates the resumed handler reads.
\<close>

datatype 'b event =
    StartConversation
  | EndConversation
  | SendMessage nat jsstring
  | ProcessRecording 'b
  | StageRecording 'b
  | ClickSend
  | Settle nat "thrown + ChatResponse" nat nat

definition resume :: "'b suspended \<Rightarrow> thrown + ChatResponse \<Rightarrow> nat \<Rightarrow> nat \<Rightarrow> 'b app_state \<Rightarrow> 'b app_state" where
  "resume k outcome now now' c =
     (case k of
        await_sendTextMessage _ \<Rightarrow> handleSendMessage_resume now outcome c
      | await_sendAudioMessage _ \<Rightarrow> handleProcessRecording_resume now now' outcome c)"

fun step :: "'b event \<Rightarrow> 'b app_state \<Rightarrow> 'b app_state" where
  "step StartConversation c = handleStartConversation c"
| "step EndConversation c = handleEndConversation c"
| "step (SendMessage now content') c = handleSendMessage now content' c"
| "step (ProcessRecording blob) c = handleProcessRecording blob c"
| "step (StageRecording blob) c = c\<lparr>audioBlob := Some blob\<rparr>"
| "step ClickSend c = send_button_click c"
| "step (Settle i outcome now now') c =
     (if i < length (awaiting c)
      then resume (awaiting c ! i) outcome now now'
             (c\<lparr>awaiting := take i (awaiting c) @ drop (Suc i) (awaiting c)\<rparr>)
      else c)"

fun run :: "'b event list \<Rightarrow> 'b app_state \<Rightarrow> 'b app_state" where
  "run [] c = c"
| "run (e # es) c = run es (step e c)"



section \<open>Exchanges that do not overlap\<close>





section \<open>Auxiliary facts\<close>

text \<open>The definitions a concrete run is evaluated with.\<close>

lemmas run_defs = initial_def handleStartConversation_def handleEndConversation_def
  handleSendMessage_def handleSendMessage_resume_def handleProcessRecording_def
  handleProcessRecording_resume_def play_audio_response_def error_message_def resume_def
  send_button_click_def AnimatedAudioRecorder_handleProcessRecording_def clearRecording_def
  trim_def isWhiteSpace_def str_def

text \<open>\<open>!content.trim()\<close> holds exactly for a string of white space only.\<close>

lemma trim_empty_iff: "trim s = [] \<longleftrightarrow> (\<forall>ch \<in> set s. isWhiteSpace ch)"
proof
  assume t: "trim s = []"
  show "\<forall>ch \<in> set s. isWhiteSpace ch"
  proof (cases "dropWhile isWhiteSpace s")
    case Nil
    then show ?thesis by (simp add: dropWhile_eq_Nil_conv)
  next
    case (Cons x xs)
    then have "\<not> isWhiteSpace x" using hd_dropWhile [of isWhiteSpace s] by simp
    moreover from t have "\<forall>y \<in> set (dropWhile isWhiteSpace s). isWhiteSpace y"
      by (simp add: trim_def dropWhile_eq_Nil_conv)
    ultimately show ?thesis using Cons by simp
  qed
next
  assume "\<forall>ch \<in> set s. isWhiteSpace ch"
  then have d: "dropWhile isWhiteSpace s = []" by (simp add: dropWhile_eq_Nil_conv)
  show "trim s = []" unfolding trim_def d by simp
qed


text \<open>Playing the reply's audio touches the audio element only.\<close>

lemma conversation_play_audio_response:
  "conversation (play_audio_response response c) = conversation c"
  by (simp add: play_audio_response_def split: option.splits)








text \<open>
  The \<open>error\<close> field is written by the two \<open>catch\<close> blocks only: a recorded error
  that was not there before is the message of a rejected gateway promise.
\<close>

lemma error_origin:
  assumes "error (conversation (step ev c)) = Some m"
  shows "error (conversation c) = Some m
         \<or> (\<exists>i e now now'. ev = Settle i (Inl e) now now' \<and> i < length (awaiting c) \<and> m = error_message e)"
proof (cases ev)
  case (Settle i outcome now now')
  then show ?thesis using assms
    by (cases "awaiting c ! i"; cases outcome)
       (auto simp add: resume_def handleSendMessage_resume_def handleProcessRecording_resume_def
          conversation_play_audio_response split: if_splits)
next
  case ClickSend
  then show ?thesis using assms
    by (auto simp add: send_button_click_def AnimatedAudioRecorder_handleProcessRecording_def
          clearRecording_def handleProcessRecording_def split: option.splits if_splits)
qed (use assms in \<open>auto simp add: handleStartConversation_def handleEndConversation_def
        handleSendMessage_def handleProcessRecording_def Let_def split: if_splits\<close>)


section \<open>Submissions while a reply is awaited\<close>

text \<open>
  C1, as stated: while \<open>isLoading\<close> is true a second \<open>handleSendMessage\<close> is rejected and
  leaves \<open>messages\<close> as it was. The handler has no such guard: after a first call, with
  its exchange still outstanding, a second call appends its own User turn.
\<close>

theorem busy_counterexample:
  "isLoading (conversation (run [StartConversation, SendMessage 1 (str ''a'')] (initial :: unit app_state)))
   \<and> messages (conversation (run [StartConversation, SendMessage 1 (str ''a'')] (initial :: unit app_state)))
       = [\<lparr>role = user, content = str ''a'', timestamp = Some 1\<rparr>]
   \<and> messages (conversation (handleSendMessage 2 (str ''b'')
         (run [StartConversation, SendMessage 1 (str ''a'')] (initial :: unit app_state))))
       = [\<lparr>role = user, content = str ''a'', timestamp = Some 1\<rparr>,
          \<lparr>role = user, content = str ''b'', timestamp = Some 2\<rparr>]
   \<and> awaiting (handleSendMessage 2 (str ''b'')
         (run [StartConversation, SendMessage 1 (str ''a'')] (initial :: unit app_state)))
       = [await_sendTextMessage (str ''a''), await_sendTextMessage (str ''b'')]"
  by (simp add: run_defs)

text \<open>
  C1, amended: while \<open>isLoading\<close> is true, a click on the recorder's send button does
  nothing at all, since the button is disabled. The handlers themselves reject nothing:
  \<open>handleProcessRecording\<close> leaves \<open>messages\<close> unchanged at the call and starts a further
  exchange, and \<open>handleSendMessage\<close> with a content that is not blank appends its User
  turn and starts a further exchange.
\<close>

theorem calls_while_loading:
  assumes "isLoading (conversation c)"
  shows "send_button_click c = c
   \<and> messages (conversation (handleProcessRecording blob c)) = messages (conversation c)
   \<and> awaiting (handleProcessRecording blob c) = awaiting c @ [await_sendAudioMessage blob]
   \<and> (trim content' \<noteq> [] \<longrightarrow>
        messages (conversation (handleSendMessage now content' c))
          = messages (conversation c) @ [\<lparr>role = user, content = content', timestamp = Some now\<rparr>]
        \<and> awaiting (handleSendMessage now content' c) = awaiting c @ [await_sendTextMessage content'])"
  using assms
  by (simp add: send_button_click_def handleProcessRecording_def handleSendMessage_def Let_def)

theorem calls_while_loading_witness:
  "isLoading (conversation (handleProcessRecording () initial))
   \<and> trim (str ''b'') \<noteq> []
   \<and> send_button_click (handleProcessRecording () initial) = handleProcessRecording () initial
   \<and> messages (conversation (handleSendMessage 2 (str ''b'') (handleProcessRecording () initial)))
      = [\<lparr>role = user, content = str ''b'', timestamp = Some 2\<rparr>]"
  using calls_while_loading [of "handleProcessRecording () initial" "()" "str ''b''" 2]
  by (simp add: run_defs)


section \<open>Order of the transcript\<close>





section \<open>Ending the conversation\<close>

text \<open>
  C3, as stated: \<open>handleEndConversation\<close> clears the last error and leaves the session
  idle, also when a reply is awaited. It spreads the previous conversation state and
  replaces \<open>messages\<close> only, so an error recorded by a failed exchange is still there
  afterwards, and \<open>isLoading\<close> is still true when an exchange is outstanding.
\<close>

theorem handleEndConversation_counterexample:
  "error (conversation (handleEndConversation
      (run [StartConversation, SendMessage 1 (str ''x''),
            Settle 0 (Inl (Error (str ''API request failed: Not Found''))) 2 2]
         (initial :: unit app_state))))
   = Some (str ''API request failed: Not Found'')
   \<and> isLoading (conversation (handleEndConversation
      (run [StartConversation, SendMessage 1 (str ''x'')] (initial :: unit app_state))))"
  by (simp add: run_defs)

text \<open>
  C3, amended: from every state, \<open>handleEndConversation\<close> makes the conversation inactive
  and the transcript empty, and changes nothing else: \<open>isLoading\<close>, \<open>error\<close>, the
  waiting handler invocations, the audio element and the staged clip are as before.
\<close>

theorem handleEndConversation_effect:
  "isConversationActive (handleEndConversation c) = False
   \<and> messages (conversation (handleEndConversation c)) = []
   \<and> isLoading (conversation (handleEndConversation c)) = isLoading (conversation c)
   \<and> error (conversation (handleEndConversation c)) = error (conversation c)
   \<and> awaiting (handleEndConversation c) = awaiting c
   \<and> audioPlayerRef (handleEndConversation c) = audioPlayerRef c
   \<and> audioBlob (handleEndConversation c) = audioBlob c"
  by (simp add: handleEndConversation_def)


section \<open>A reply that arrives after the end of the conversation\<close>

text \<open>
  C4, as stated: after \<open>handleEndConversation\<close> the response of an outstanding exchange
  is discarded. Nothing cancels the exchange: when the reply arrives, the resumed handler
  appends its Assistant turn to the transcript that was cleared.
\<close>

theorem cancel_counterexample:
  "messages (conversation (run
      [StartConversation, SendMessage 1 (str ''hi''), EndConversation,
       Settle 0 (Inr \<lparr>reply_text = str ''late'', audio_url = None\<rparr>) 2 2]
      (initial :: unit app_state)))
   = [\<lparr>role = assistant, content = str ''late'', timestamp = Some 2\<rparr>]"
  by (simp add: run_defs)

text \<open>
  C4, amended: \<open>handleEndConversation\<close> leaves every outstanding exchange outstanding,
  and a response that arrives afterwards is applied to the cleared transcript: after a
  successful text exchange the transcript is the Assistant turn alone, after a successful
  recording exchange it is the placeholder User turn and the Assistant turn; only a
  failed exchange leaves it empty.
\<close>

theorem reply_after_end:
  assumes "i < length (awaiting c)"
  shows "awaiting (step EndConversation c) = awaiting c
   \<and> (awaiting c ! i = await_sendTextMessage x \<longrightarrow>
        messages (conversation (run [EndConversation, Settle i (Inr response) now now'] c))
          = [\<lparr>role = assistant, content = reply_text response, timestamp = Some now\<rparr>])
   \<and> (awaiting c ! i = await_sendAudioMessage blob \<longrightarrow>
        messages (conversation (run [EndConversation, Settle i (Inr response) now now'] c))
          = [\<lparr>role = user, content = str ''[Voice Message]'', timestamp = Some now\<rparr>,
             \<lparr>role = assistant, content = reply_text response, timestamp = Some now'\<rparr>])
   \<and> messages (conversation (run [EndConversation, Settle i (Inl e) now now'] c)) = []"
  using assms
  by (cases "awaiting c ! i")
     (simp_all add: handleEndConversation_def resume_def handleSendMessage_resume_def
        handleProcessRecording_resume_def conversation_play_audio_response)

theorem reply_after_end_witness:
  "0 < length (awaiting (run [StartConversation, SendMessage 1 (str ''hi'')] (initial :: unit app_state)))
   \<and> awaiting (run [StartConversation, SendMessage 1 (str ''hi'')] (initial :: unit app_state)) ! 0
       = await_sendTextMessage (str ''hi'')
   \<and> awaiting (step EndConversation (run [StartConversation, SendMessage 1 (str ''hi'')] (initial :: unit app_state)))
       = [await_sendTextMessage (str ''hi'')]
   \<and> messages (conversation (run [EndConversation, Settle 0 (Inr \<lparr>reply_text = str ''late'', audio_url = None\<rparr>) 2 2]
        (run [StartConversation, SendMessage 1 (str ''hi'')] (initial :: unit app_state))))
       = [\<lparr>role = assistant, content = str ''late'', timestamp = Some 2\<rparr>]
   \<and> awaiting (run [StartConversation, ProcessRecording ()] (initial :: unit app_state)) ! 0
       = await_sendAudioMessage ()
   \<and> messages (conversation (run [EndConversation, Settle 0 (Inr \<lparr>reply_text = str ''late'', audio_url = None\<rparr>) 2 3]
        (run [StartConversation, ProcessRecording ()] (initial :: unit app_state))))
       = [\<lparr>role = user, content = str ''[Voice Message]'', timestamp = Some 2\<rparr>,
          \<lparr>role = assistant, content = str ''late'', timestamp = Some 3\<rparr>]"
  using reply_after_end [where i = 0
          and c = "run [StartConversation, SendMessage 1 (str ''hi'')] (initial :: unit app_state)"
          and x = "str ''hi''" and response = "\<lparr>reply_text = str ''late'', audio_url = None\<rparr>"
          and now = 2 and now' = 2 and blob = "()" and e = NonError]
        reply_after_end [where i = 0
          and c = "run [StartConversation, ProcessRecording ()] (initial :: unit app_state)"
          and x = "str ''hi''" and response = "\<lparr>reply_text = str ''late'', audio_url = None\<rparr>"
          and now = 2 and now' = 3 and blob = "()" and e = NonError]
  by (simp add: run_defs)


section \<open>A text exchange that fails\<close>

text \<open>
  C5, as stated: when the exchange of \<open>handleSendMessage\<close> fails with a network error,
  the last error is recorded with origin Network. The \<open>catch\<close> block stores
  \<open>error.message\<close>, a string, in \<open>conversation.error\<close>, and \<open>ConversationState\<close> has no
  field for an origin. After a reply with status 503 the conversation state is the User
  turn, \<open>isLoading\<close> false and the message, and nothing else. A reply with status 200
  whose body is not JSON is no network error, and is recorded in the same way: when
  \<open>response.json()\<close> rejects with the same message, the state of the component is the
  very same, so nothing in the state tells a network error from another failure.
\<close>

theorem error_without_origin_counterexample:
  "conversation (run [SendMessage 1 (str ''x''),
       Settle 0 (snd (sendTextMessage (API_BASE_URL None)
          (\<lambda>url (init :: unit RequestInit).
             Inr \<lparr>status = 503, statusText = str ''Service Unavailable'',
                  text_promise = Inr (str ''down''), json_promise = Inl NonError,
                  blob_promise = Inr ()\<rparr>)
          (str ''x''))) 2 2]
      (initial :: unit app_state))
   = \<lparr>messages = [\<lparr>role = user, content = str ''x'', timestamp = Some 1\<rparr>],
      isLoading = False,
      error = Some (str ''API request failed: Service Unavailable'')\<rparr>
   \<and> ok (\<lparr>status = 200, statusText = str ''OK'', text_promise = Inr (str ''<html>''),
          json_promise = Inl (Error (str ''API request failed: Service Unavailable'')),
          blob_promise = Inr ()\<rparr> :: (ChatResponse, unit) Response)
   \<and> run [SendMessage 1 (str ''x''),
       Settle 0 (snd (sendTextMessage (API_BASE_URL None)
          (\<lambda>url (init :: unit RequestInit).
             Inr \<lparr>status = 200, statusText = str ''OK'', text_promise = Inr (str ''<html>''),
                  json_promise = Inl (Error (str ''API request failed: Service Unavailable'')),
                  blob_promise = Inr ()\<rparr>)
          (str ''x''))) 2 2]
      (initial :: unit app_state)
     = run [SendMessage 1 (str ''x''),
       Settle 0 (snd (sendTextMessage (API_BASE_URL None)
          (\<lambda>url (init :: unit RequestInit).
             Inr \<lparr>status = 503, statusText = str ''Service Unavailable'',
                  text_promise = Inr (str ''down''), json_promise = Inl NonError,
                  blob_promise = Inr ()\<rparr>)
          (str ''x''))) 2 2]
      (initial :: unit app_state)"
  by (simp add: run_defs sendTextMessage_def makeRequest_def ok_def Let_def)

text \<open>
  C5, amended: for a content that is not blank, \<open>handleSendMessage\<close> appends the User
  turn and sets \<open>isLoading\<close> before the gateway is awaited; its waiting invocation is
  the last one, at index \<open>length (awaiting c)\<close>. When the gateway's promise is rejected,
  the User turn is still there, no Assistant turn is appended, \<open>isLoading\<close> is false
  again, nothing is played, and \<open>error\<close> holds the message of the rejection, a string
  and no origin with it.
\<close>

theorem handleSendMessage_failure:
  assumes "trim content' \<noteq> []"
  shows "messages (conversation (step (SendMessage now content') c))
           = messages (conversation c) @ [\<lparr>role = user, content = content', timestamp = Some now\<rparr>]
   \<and> isLoading (conversation (step (SendMessage now content') c))
   \<and> messages (conversation (run [SendMessage now content', Settle (length (awaiting c)) (Inl e) now' now''] c))
           = messages (conversation c) @ [\<lparr>role = user, content = content', timestamp = Some now\<rparr>]
   \<and> \<not> isLoading (conversation (run [SendMessage now content', Settle (length (awaiting c)) (Inl e) now' now''] c))
   \<and> error (conversation (run [SendMessage now content', Settle (length (awaiting c)) (Inl e) now' now''] c))
           = Some (error_message e)
   \<and> audioPlayerRef (run [SendMessage now content', Settle (length (awaiting c)) (Inl e) now' now''] c)
           = audioPlayerRef c
   \<and> awaiting (run [SendMessage now content', Settle (length (awaiting c)) (Inl e) now' now''] c) = awaiting c"
  using assms
  by (simp add: handleSendMessage_def Let_def resume_def handleSendMessage_resume_def nth_append)

theorem handleSendMessage_failure_witness:
  "trim (str ''x'') \<noteq> []
   \<and> messages (conversation (run [SendMessage 1 (str ''x''),
         Settle 0 (Inl (Error (str ''API request failed: Service Unavailable''))) 2 2] (initial :: unit app_state)))
       = [\<lparr>role = user, content = str ''x'', timestamp = Some 1\<rparr>]
   \<and> error (conversation (run [SendMessage 1 (str ''x''),
         Settle 0 (Inl (Error (str ''API request failed: Service Unavailable''))) 2 2] (initial :: unit app_state)))
       = Some (str ''API request failed: Service Unavailable'')
   \<and> \<not> isLoading (conversation (run [SendMessage 1 (str ''x''),
         Settle 0 (Inl (Error (str ''API request failed: Service Unavailable''))) 2 2] (initial :: unit app_state)))"
  using handleSendMessage_failure [of "str ''x''" 1 "initial :: unit app_state"
          "Error (str ''API request failed: Service Unavailable'')" 2 2]
  by (simp add: initial_def error_message_def trim_def isWhiteSpace_def str_def)


section \<open>A recording exchange that fails\<close>

text \<open>
  C6, as stated: \<open>handleProcessRecording\<close> appends a placeholder User turn before the
  gateway is called, and the turn remains when the exchange fails. The handler builds
  the placeholder after the \<open>await\<close>, on success only: the transcript is empty while
  the gateway is awaited and still empty after the failure.
\<close>

theorem recording_failure_counterexample:
  "messages (conversation (run [StartConversation, ProcessRecording ()] (initial :: unit app_state))) = []
   \<and> messages (conversation (run
      [StartConversation, ProcessRecording (),
       Settle 0 (Inl (Error (str ''Audio processing failed: Bad Gateway''))) 1 2]
      (initial :: unit app_state))) = []"
  by (simp add: run_defs)

text \<open>
  C6, amended: \<open>handleProcessRecording\<close> appends no turn before the gateway is called;
  the placeholder User turn is appended together with the Assistant turn, on success.
  When the exchange fails the transcript is what it was before the call, \<open>isLoading\<close> is
  false and \<open>error\<close> holds the message of the rejection.
\<close>

theorem handleProcessRecording_failure:
  "messages (conversation (step (ProcessRecording blob) c)) = messages (conversation c)
   \<and> awaiting (step (ProcessRecording blob) c) = awaiting c @ [await_sendAudioMessage blob]
   \<and> messages (conversation (run [ProcessRecording blob, Settle (length (awaiting c)) (Inl e) now now'] c))
       = messages (conversation c)
   \<and> \<not> isLoading (conversation (run [ProcessRecording blob, Settle (length (awaiting c)) (Inl e) now now'] c))
   \<and> error (conversation (run [ProcessRecording blob, Settle (length (awaiting c)) (Inl e) now now'] c))
       = Some (error_message e)"
  by (simp add: handleProcessRecording_def resume_def handleProcessRecording_resume_def nth_append)


section \<open>A recording exchange that succeeds\<close>

text \<open>
  C7, as stated: the reply's audio is played once whenever \<open>audio_url\<close> is present. The
  handler tests \<open>response.audio_url && audioPlayerRef.current\<close>, and an empty string is
  falsy: a reply whose \<open>audio_url\<close> is the empty string is not played.
\<close>

theorem playback_counterexample:
  "audioPlayerRef (run
      [StartConversation, ProcessRecording (),
       Settle 0 (Inr \<lparr>reply_text = str ''noted'', audio_url = Some []\<rparr>) 1 2]
      (initial :: unit app_state))
   = Some \<lparr>src = [], play_calls = []\<rparr>"
  by (simp add: run_defs)

text \<open>
  C7, amended: when the exchange of \<open>handleProcessRecording\<close> succeeds, the transcript
  gains the placeholder User turn immediately followed by the Assistant turn with the
  reply's text. With the audio element mounted, the element receives exactly one \<open>play\<close>
  call, with the reply's \<open>audio_url\<close> as its source, when \<open>audio_url\<close> is present and
  not empty, and no call when it is absent or empty. A click on the enabled send button
  with a staged clip is this call of the handler, after which the staged clip is dropped.
\<close>

theorem handleProcessRecording_success:
  assumes "audioPlayerRef c = Some player"
  shows "messages (conversation (run [ProcessRecording blob, Settle (length (awaiting c)) (Inr response) now now'] c))
       = messages (conversation c)
         @ [\<lparr>role = user, content = str ''[Voice Message]'', timestamp = Some now\<rparr>,
            \<lparr>role = assistant, content = reply_text response, timestamp = Some now'\<rparr>]
   \<and> (\<forall>url. audio_url response = Some url \<and> url \<noteq> [] \<longrightarrow>
        audioPlayerRef (run [ProcessRecording blob, Settle (length (awaiting c)) (Inr response) now now'] c)
          = Some (player\<lparr>src := url, play_calls := play_calls player @ [url]\<rparr>))
   \<and> (audio_url response = None \<or> audio_url response = Some [] \<longrightarrow>
        audioPlayerRef (run [ProcessRecording blob, Settle (length (awaiting c)) (Inr response) now now'] c)
          = Some player)
   \<and> (audioBlob c = Some blob \<and> \<not> isLoading (conversation c) \<longrightarrow>
        step ClickSend c = (step (ProcessRecording blob) c)\<lparr>audioBlob := None\<rparr>)"
  using assms
  by (auto simp add: handleProcessRecording_def resume_def handleProcessRecording_resume_def nth_append
        play_audio_response_def send_button_click_def AnimatedAudioRecorder_handleProcessRecording_def
        clearRecording_def Let_def split: option.splits)

theorem handleProcessRecording_success_witness:
  "audioPlayerRef (initial :: unit app_state) = Some \<lparr>src = [], play_calls = []\<rparr>
   \<and> messages (conversation (run [ProcessRecording (),
        Settle 0 (Inr \<lparr>reply_text = str ''noted'', audio_url = Some (str ''http://h/r1'')\<rparr>) 1 2] (initial :: unit app_state)))
     = [\<lparr>role = user, content = str ''[Voice Message]'', timestamp = Some 1\<rparr>,
        \<lparr>role = assistant, content = str ''noted'', timestamp = Some 2\<rparr>]
   \<and> audioPlayerRef (run [ProcessRecording (),
        Settle 0 (Inr \<lparr>reply_text = str ''noted'', audio_url = Some (str ''http://h/r1'')\<rparr>) 1 2] (initial :: unit app_state))
     = Some \<lparr>src = str ''http://h/r1'', play_calls = [str ''http://h/r1'']\<rparr>
   \<and> audioPlayerRef (run [ProcessRecording (),
        Settle 0 (Inr \<lparr>reply_text = str ''noted'', audio_url = None\<rparr>) 1 2] (initial :: unit app_state))
     = Some \<lparr>src = [], play_calls = []\<rparr>
   \<and> audioBlob (step (StageRecording ()) (initial :: unit app_state)) = Some ()
   \<and> \<not> isLoading (conversation (step (StageRecording ()) (initial :: unit app_state)))
   \<and> awaiting (step ClickSend (step (StageRecording ()) (initial :: unit app_state)))
     = [await_sendAudioMessage ()]
   \<and> audioBlob (step ClickSend (step (StageRecording ()) (initial :: unit app_state))) = None"
  using handleProcessRecording_success [of "initial :: unit app_state" "\<lparr>src = [], play_calls = []\<rparr>" "()"
          "\<lparr>reply_text = str ''noted'', audio_url = Some (str ''http://h/r1'')\<rparr>" 1 2]
        handleProcessRecording_success [of "initial :: unit app_state" "\<lparr>src = [], play_calls = []\<rparr>" "()"
          "\<lparr>reply_text = str ''noted'', audio_url = None\<rparr>" 1 2]
        handleProcessRecording_success [of "step (StageRecording ()) (initial :: unit app_state)"
          "\<lparr>src = [], play_calls = []\<rparr>" "()"
          "\<lparr>reply_text = str ''noted'', audio_url = None\<rparr>" 1 2]
  by (simp add: initial_def str_def handleProcessRecording_def)


section \<open>The request of \<open>sendAudioMessage\<close>\<close>

text \<open>
  C8: \<open>sendAudioMessage\<close> makes exactly one \<open>fetch\<close> call, a POST of the clip as the
  multipart field \<open>audio\<close>. The service of \<open>unnamed/part_001\<close> addresses it to
  \<open>/api/audio-chat\<close>, as the claim says; the service of \<open>frontend/src/services/api.ts\<close>
  addresses it to \<open>/api/speech-to-text\<close>, the endpoint for transcription only.
\<close>

theorem sendAudioMessage_endpoint:
  "fst (sendAudioMessage base fetch blob)
     = [(base @ str ''/api/speech-to-text'',
         \<lparr>http_method = Some (str ''POST''), headers = None,
          body = Some (FormData [(str ''audio'', blob, str ''recording.webm'')])\<rparr>)]
   \<and> fst (sendAudioMessage_part_001 base fetch blob)
     = [(base @ str ''/api/audio-chat'',
         \<lparr>http_method = Some (str ''POST''), headers = None,
          body = Some (FormData [(str ''audio'', blob, str ''recording.webm'')])\<rparr>)]
   \<and> base @ str ''/api/speech-to-text'' \<noteq> base @ str ''/api/audio-chat''"
  by (simp add: sendAudioMessage_def sendAudioMessage_part_001_def Let_def str_def
        split: sum.splits)


section \<open>Failures of the gateway\<close>

text \<open>
  C9, as stated: a response with a status from 200 to 299 never raises an error. Both
  services return \<open>response.json()\<close> for such a response, and that promise is rejected
  when the body is not JSON.
\<close>

theorem json_rejection_counterexample:
  "ok (\<lparr>status = 200, statusText = str ''OK'', text_promise = Inr (str ''<html>''),
       json_promise = Inl (Error (str ''Unexpected token <'')),
       blob_promise = Inr ()\<rparr> :: (ChatResponse, unit) Response)
   \<and> snd (sendTextMessage (API_BASE_URL None)
        (\<lambda>url (init :: unit RequestInit).
            Inr \<lparr>status = 200, statusText = str ''OK'', text_promise = Inr (str ''<html>''),
                 json_promise = Inl (Error (str ''Unexpected token <'')),
                 blob_promise = Inr ()\<rparr>)
        (str ''hi''))
     = Inl (Error (str ''Unexpected token <''))
   \<and> snd (sendTextMessage_part_001 (API_BASE_URL None)
        (\<lambda>url (init :: unit RequestInit).
            Inr \<lparr>status = 200, statusText = str ''OK'', text_promise = Inr (str ''<html>''),
                 json_promise = Inl (Error (str ''Unexpected token <'')),
                 blob_promise = Inr ()\<rparr>)
        (str ''hi''))
     = Inl (Error (str ''Unexpected token <''))
   \<and> snd (sendAudioMessage_part_001 (API_BASE_URL None)
        (\<lambda>url (init :: unit RequestInit).
            Inr \<lparr>status = 200, statusText = str ''OK'', text_promise = Inr (str ''<html>''),
                 json_promise = Inl (Error (str ''Unexpected token <'')),
                 blob_promise = Inr ()\<rparr>)
        ())
     = Inl (Error (str ''Unexpected token <''))"
  by (simp add: sendTextMessage_def makeRequest_def sendTextMessage_part_001_def
        makeRequest_part_001_def sendAudioMessage_part_001_def ok_def Let_def)

text \<open>
  C9, amended: every gateway call of both services, through \<open>makeRequest\<close> or with a
  \<open>fetch\<close> of its own, calls \<open>fetch\<close> exactly once, whatever the outcome, so nothing is
  retried, and its promise is \<open>gateway_outcome\<close> of what \<open>fetch\<close> gave. A rejected
  \<open>fetch\<close> is passed on. A response with a status outside 200 to 299 is surfaced as a
  rejection: an \<open>Error\<close> whose message is the prefix of the call followed by the status
  text of the response, and in the service of \<open>unnamed/part_001\<close> by the body text after
  it, once the body has been read. A response with a status from 200 to 299 gives what
  reading its body gives, \<open>response.json()\<close> or for \<open>textToSpeech\<close> \<open>response.blob()\<close>,
  so it raises no error when the body is JSON.
\<close>

theorem gateway_calls_outcome:
  "makeRequest base fetch endpoint options
     = ([(base @ endpoint, makeRequest_init options)],
        gateway_outcome (fetch (base @ endpoint) (makeRequest_init options))
          (str ''API request failed: '') json_promise)
   \<and> sendTextMessage base fetch_chat message_text
     = ([(base @ str ''/api/chat'',
          \<lparr>http_method = Some (str ''POST''),
           headers = Some [(str ''Content-Type'', str ''application/json'')],
           body = Some (JSON_stringify_text message_text)\<rparr>)],
        gateway_outcome
          (fetch_chat (base @ str ''/api/chat'')
             \<lparr>http_method = Some (str ''POST''),
              headers = Some [(str ''Content-Type'', str ''application/json'')],
              body = Some (JSON_stringify_text message_text)\<rparr>)
          (str ''API request failed: '') json_promise)
   \<and> sendAudioMessage base fetch_chat blob
     = ([(base @ str ''/api/speech-to-text'',
          \<lparr>http_method = Some (str ''POST''), headers = None,
           body = Some (FormData [(str ''audio'', blob, str ''recording.webm'')])\<rparr>)],
        gateway_outcome
          (fetch_chat (base @ str ''/api/speech-to-text'')
             \<lparr>http_method = Some (str ''POST''), headers = None,
              body = Some (FormData [(str ''audio'', blob, str ''recording.webm'')])\<rparr>)
          (str ''Audio processing failed: '') json_promise)
   \<and> getConversationHistory base fetch
     = ([(base @ str ''/api/conversation-history'',
          \<lparr>http_method = None,
           headers = Some [(str ''Content-Type'', str ''application/json'')],
           body = None\<rparr>)],
        gateway_outcome
          (fetch (base @ str ''/api/conversation-history'')
             \<lparr>http_method = None,
              headers = Some [(str ''Content-Type'', str ''application/json'')],
              body = None\<rparr>)
          (str ''API request failed: '') json_promise)
   \<and> textToSpeech base fetch message_text
     = ([(base @ str ''/api/text-to-speech'',
          \<lparr>http_method = Some (str ''POST''),
           headers = Some [(str ''Content-Type'', str ''application/json'')],
           body = Some (JSON_stringify_text message_text)\<rparr>)],
        gateway_outcome
          (fetch (base @ str ''/api/text-to-speech'')
             \<lparr>http_method = Some (str ''POST''),
              headers = Some [(str ''Content-Type'', str ''application/json'')],
              body = Some (JSON_stringify_text message_text)\<rparr>)
          (str ''Text-to-speech failed: '') blob_promise)
   \<and> makeRequest_part_001 base fetch endpoint options
     = ([(base @ endpoint, makeRequest_init options)],
        gateway_outcome_part_001 (fetch (base @ endpoint) (makeRequest_init options))
          (str ''API request failed: '') json_promise)
   \<and> sendTextMessage_part_001 base fetch_chat message_text
     = ([(base @ str ''/api/chat'',
          \<lparr>http_method = Some (str ''POST''),
           headers = Some [(str ''Content-Type'', str ''application/json'')],
           body = Some (JSON_stringify_text message_text)\<rparr>)],
        gateway_outcome_part_001
          (fetch_chat (base @ str ''/api/chat'')
             \<lparr>http_method = Some (str ''POST''),
              headers = Some [(str ''Content-Type'', str ''application/json'')],
              body = Some (JSON_stringify_text message_text)\<rparr>)
          (str ''API request failed: '') json_promise)
   \<and> sendAudioMessage_part_001 base fetch_chat blob
     = ([(base @ str ''/api/audio-chat'',
          \<lparr>http_method = Some (str ''POST''), headers = None,
           body = Some (FormData [(str ''audio'', blob, str ''recording.webm'')])\<rparr>)],
        gateway_outcome_part_001
          (fetch_chat (base @ str ''/api/audio-chat'')
             \<lparr>http_method = Some (str ''POST''), headers = None,
              body = Some (FormData [(str ''audio'', blob, str ''recording.webm'')])\<rparr>)
          (str ''Audio processing failed: '') json_promise)
   \<and> speechToText base fetch_stt blob
     = ([(base @ str ''/api/speech-to-text'',
          \<lparr>http_method = Some (str ''POST''), headers = None,
           body = Some (FormData [(str ''audio'', blob, str ''recording.webm'')])\<rparr>)],
        gateway_outcome_part_001
          (fetch_stt (base @ str ''/api/speech-to-text'')
             \<lparr>http_method = Some (str ''POST''), headers = None,
              body = Some (FormData [(str ''audio'', blob, str ''recording.webm'')])\<rparr>)
          (str ''Speech-to-text failed: '') json_promise)
   \<and> textToSpeech_part_001 base fetch message_text
     = ([(base @ str ''/api/text-to-speech'',
          \<lparr>http_method = Some (str ''POST''),
           headers = Some [(str ''Content-Type'', str ''application/json'')],
           body = Some (JSON_stringify_text message_text)\<rparr>)],
        gateway_outcome_part_001
          (fetch (base @ str ''/api/text-to-speech'')
             \<lparr>http_method = Some (str ''POST''),
              headers = Some [(str ''Content-Type'', str ''application/json'')],
              body = Some (JSON_stringify_text message_text)\<rparr>)
          (str ''Text-to-speech failed: '') blob_promise)
   \<and> getConversationHistory_part_001 base fetch
     = ([(base @ str ''/api/conversation-history'',
          \<lparr>http_method = None,
           headers = Some [(str ''Content-Type'', str ''application/json'')],
           body = None\<rparr>)],
        gateway_outcome_part_001
          (fetch (base @ str ''/api/conversation-history'')
             \<lparr>http_method = None,
              headers = Some [(str ''Content-Type'', str ''application/json'')],
              body = None\<rparr>)
          (str ''API request failed: '') json_promise)
   \<and> clearConversationHistory base fetch_clear
     = ([(base @ str ''/api/conversation-history'',
          \<lparr>http_method = Some (str ''DELETE''),
           headers = Some [(str ''Content-Type'', str ''application/json'')],
           body = None\<rparr>)],
        gateway_outcome_part_001
          (fetch_clear (base @ str ''/api/conversation-history'')
             \<lparr>http_method = Some (str ''DELETE''),
              headers = Some [(str ''Content-Type'', str ''application/json'')],
              body = None\<rparr>)
          (str ''API request failed: '') json_promise)
   \<and> getHealthStatus base fetch
     = ([(base @ str ''/api/health'',
          \<lparr>http_method = None,
           headers = Some [(str ''Content-Type'', str ''application/json'')],
           body = None\<rparr>)],
        gateway_outcome_part_001
          (fetch (base @ str ''/api/health'')
             \<lparr>http_method = None,
              headers = Some [(str ''Content-Type'', str ''application/json'')],
              body = None\<rparr>)
          (str ''API request failed: '') json_promise)
   \<and> getApiStatus base fetch
     = ([(base @ str ''/api/status'',
          \<lparr>http_method = None,
           headers = Some [(str ''Content-Type'', str ''application/json'')],
           body = None\<rparr>)],
        gateway_outcome_part_001
          (fetch (base @ str ''/api/status'')
             \<lparr>http_method = None,
              headers = Some [(str ''Content-Type'', str ''application/json'')],
              body = None\<rparr>)
          (str ''API request failed: '') json_promise)
   \<and> gateway_outcome (Inl e) msg read_body = Inl e
   \<and> gateway_outcome_part_001 (Inl e) msg read_body = Inl e
   \<and> (\<not> ok response \<longrightarrow>
        gateway_outcome (Inr response) msg read_body
          = Inl (Error (msg @ statusText response))
        \<and> (\<exists>e'. gateway_outcome_part_001 (Inr response) msg read_body = Inl e')
        \<and> (\<forall>errorText. text_promise response = Inr errorText \<longrightarrow>
             gateway_outcome_part_001 (Inr response) msg read_body
               = Inl (Error (msg @ statusText response @ str '' - '' @ errorText))))
   \<and> (ok response \<longrightarrow>
        gateway_outcome (Inr response) msg read_body = read_body response
        \<and> gateway_outcome_part_001 (Inr response) msg read_body = read_body response)"
proof -
  have calls:
    "makeRequest base fetch endpoint options
       = ([(base @ endpoint, makeRequest_init options)],
          gateway_outcome (fetch (base @ endpoint) (makeRequest_init options))
            (str ''API request failed: '') json_promise)"
    "makeRequest_part_001 base fetch endpoint options
       = ([(base @ endpoint, makeRequest_init options)],
          gateway_outcome_part_001 (fetch (base @ endpoint) (makeRequest_init options))
            (str ''API request failed: '') json_promise)"
    for base endpoint and fetch :: "('x, 'y) fetch" and options
    by (simp_all add: makeRequest_def makeRequest_part_001_def gateway_outcome_def
          gateway_outcome_part_001_def Let_def split: sum.splits)
  have outcomes:
    "\<not> ok response \<longrightarrow>
        gateway_outcome (Inr response) msg read_body = Inl (Error (msg @ statusText response))
        \<and> (\<exists>e'. gateway_outcome_part_001 (Inr response) msg read_body = Inl e')
        \<and> (\<forall>errorText. text_promise response = Inr errorText \<longrightarrow>
             gateway_outcome_part_001 (Inr response) msg read_body
               = Inl (Error (msg @ statusText response @ str '' - '' @ errorText)))"
    by (cases "text_promise response")
       (simp_all add: gateway_outcome_def gateway_outcome_part_001_def)
  show ?thesis
    unfolding sendTextMessage_def sendTextMessage_part_001_def getConversationHistory_def
      getConversationHistory_part_001_def clearConversationHistory_def getHealthStatus_def
      getApiStatus_def calls
    using outcomes
    by (simp add: makeRequest_init_def sendAudioMessage_def sendAudioMessage_part_001_def
          textToSpeech_def speechToText_def textToSpeech_part_001_def
          gateway_outcome_def gateway_outcome_part_001_def Let_def split: sum.splits)
qed

theorem gateway_calls_outcome_witness:
  "\<not> ok (\<lparr>status = 404, statusText = str ''Not Found'', text_promise = Inr (str ''gone''),
          json_promise = Inl NonError, blob_promise = Inr ()\<rparr> :: (ChatResponse, unit) Response)
   \<and> snd (sendAudioMessage (str ''http://h'')
        (\<lambda>url (init :: unit RequestInit).
           Inr \<lparr>status = 404, statusText = str ''Not Found'', text_promise = Inr (str ''gone''),
                json_promise = Inl NonError, blob_promise = Inr ()\<rparr>) ())
      = Inl (Error (str ''Audio processing failed: Not Found''))
   \<and> snd (sendAudioMessage_part_001 (str ''http://h'')
        (\<lambda>url (init :: unit RequestInit).
           Inr \<lparr>status = 404, statusText = str ''Not Found'', text_promise = Inr (str ''gone''),
                json_promise = Inl NonError, blob_promise = Inr ()\<rparr>) ())
      = Inl (Error (str ''Audio processing failed: Not Found - gone''))
   \<and> ok (\<lparr>status = 200, statusText = str ''OK'', text_promise = Inr [],
          json_promise = Inr \<lparr>reply_text = str ''1.27'', audio_url = None\<rparr>,
          blob_promise = Inr ()\<rparr> :: (ChatResponse, unit) Response)
   \<and> sendTextMessage (str ''http://h'')
        (\<lambda>url (init :: unit RequestInit).
           Inr \<lparr>status = 200, statusText = str ''OK'', text_promise = Inr [],
                json_promise = Inr \<lparr>reply_text = str ''1.27'', audio_url = None\<rparr>,
                blob_promise = Inr ()\<rparr>)
        (str ''quote'')
      = ([(str ''http://h/api/chat'',
           \<lparr>http_method = Some (str ''POST''),
            headers = Some [(str ''Content-Type'', str ''application/json'')],
            body = Some (JSON_stringify_text (str ''quote''))\<rparr>)],
         Inr \<lparr>reply_text = str ''1.27'', audio_url = None\<rparr>)"
  using gateway_calls_outcome [where base = "str ''http://h''" and blob = "()"
          and message_text = "str ''quote''"
          and fetch_chat = "\<lambda>url (init :: unit RequestInit).
           Inr \<lparr>status = 404, statusText = str ''Not Found'', text_promise = Inr (str ''gone''),
                json_promise = Inl NonError, blob_promise = Inr ()\<rparr>"
          and response = "\<lparr>status = 404, statusText = str ''Not Found'', text_promise = Inr (str ''gone''),
                json_promise = (Inl NonError :: thrown + ChatResponse), blob_promise = Inr ()\<rparr>"
          and msg = "str ''Audio processing failed: ''" and read_body = json_promise
          and fetch = "\<lambda>url init. Inl NonError :: thrown + (unit, unit) Response"
          and fetch_stt = "\<lambda>url init. Inl NonError" and fetch_clear = "\<lambda>url init. Inl NonError"
          and endpoint = "[]" and options = "\<lparr>http_method = None, headers = None, body = None\<rparr>"
          and e = NonError]
        gateway_calls_outcome [where base = "str ''http://h''" and blob = "()"
          and message_text = "str ''quote''"
          and fetch_chat = "\<lambda>url (init :: unit RequestInit).
           Inr \<lparr>status = 200, statusText = str ''OK'', text_promise = Inr [],
                json_promise = Inr \<lparr>reply_text = str ''1.27'', audio_url = None\<rparr>,
                blob_promise = Inr ()\<rparr>"
          and response = "\<lparr>status = 200, statusText = str ''OK'', text_promise = Inr [],
                json_promise = (Inr \<lparr>reply_text = str ''1.27'', audio_url = None\<rparr> :: thrown + ChatResponse),
                blob_promise = Inr ()\<rparr>"
          and msg = "str ''API request failed: ''" and read_body = json_promise
          and fetch = "\<lambda>url init. Inl NonError :: thrown + (unit, unit) Response"
          and fetch_stt = "\<lambda>url init. Inl NonError" and fetch_clear = "\<lambda>url init. Inl NonError"
          and endpoint = "[]" and options = "\<lparr>http_method = None, headers = None, body = None\<rparr>"
          and e = NonError]
  by (simp add: ok_def str_def gateway_outcome_def gateway_outcome_part_001_def
        sendAudioMessage_def sendAudioMessage_part_001_def sendTextMessage_def makeRequest_def
        makeRequest_init_def Let_def)


section \<open>Blank input\<close>

text \<open>
  C10: for a content that is empty or white space only, \<open>handleSendMessage\<close> returns at
  its first line: the whole state is unchanged, so no User turn is appended, \<open>isLoading\<close>
  and \<open>error\<close> are as before, and no handler invocation waits for the gateway, that is,
  no request was made. The handler of \<open>components/Conversation.tsx\<close> starts with the same
  line.
\<close>

theorem handleSendMessage_blank_noop:
  assumes "\<forall>ch \<in> set content'. isWhiteSpace ch"
  shows "handleSendMessage now content' c = c"
  using assms by (simp add: handleSendMessage_def trim_empty_iff)

theorem handleSendMessage_blank_noop_witness:
  "isWhiteSpace 0x20 \<and> isWhiteSpace 0x9 \<and> isWhiteSpace 0xFEFF
   \<and> handleSendMessage 5 [0x20, 0x9, 0xFEFF] (initial :: unit app_state) = initial
   \<and> handleSendMessage 5 [] (initial :: unit app_state) = initial"
  using handleSendMessage_blank_noop [of "[0x20, 0x9, 0xFEFF]" 5 "initial :: unit app_state"]
        handleSendMessage_blank_noop [of "[]" 5 "initial :: unit app_state"]
  by (simp add: isWhiteSpace_def)

end
